theory Spec2Isabelle
  imports Complex_Main "HOL-Library.Word"
begin

section \<open>Recuvia: the upload route and the text search of the main page\<close>

text \<open>
  The development embeds two handlers of the repository:
  \<^item> \<open>POST\<close> of \<^verbatim>\<open>frontend/app/api/upload/route.ts\<close> (the ingestion handler), and
  \<^item> \<open>handleTextSearch\<close> of \<^verbatim>\<open>frontend/app/main/page.tsx\<close>.

  Both are sequences of calls to external services. Every external call is a field of an
  environment record that gives the reply of the call; every effect of a handler (a call
  to a service, a console line, a timer) is appended to a list of events, in program
  order; the process-wide map \<open>processingStatus\<close> is passed in and returned. A thrown
  JavaScript value is a value of type \<open>thrown\<close>, and the \<^verbatim>\<open>try\<close> blocks of the source
  are case distinctions on it.

  The texts of the upload route (identifiers, file names, messages) are \<open>string\<close>; a
  \<open>char\<close> stands for the UTF-16 code unit of the same value, so these are texts of code
  units below 256. The query of the text search, whose white space decides what the page
  does, is a list of 16-bit code units.
\<close>

subsection \<open>JavaScript values used by the handlers\<close>

type_synonym bytes = "8 word list"

text \<open>A \<^verbatim>\<open>File\<close> of a multipart form: its name, its MIME type and its content.\<close>

record file_obj =
  file_name :: string
  file_type :: string
  file_content :: bytes

text \<open>\<^verbatim>\<open>FormDataEntryValue = string | File\<close>; \<^verbatim>\<open>formData.get\<close> gives \<^verbatim>\<open>null\<close> for a
  field that is absent, which is \<open>None\<close> here.\<close>

datatype form_value = Text string | FileValue file_obj

text \<open>The truth value JavaScript gives to the result of \<^verbatim>\<open>formData.get\<close>: \<^verbatim>\<open>null\<close> and
  the empty string are falsy, every object is truthy.\<close>

fun truthy :: "form_value option \<Rightarrow> bool" where
  "truthy None = False"
| "truthy (Some (Text s)) = (s \<noteq> [])"
| "truthy (Some (FileValue f)) = True"

text \<open>
  A thrown value: an instance of \<^verbatim>\<open>Error\<close> with its message, any other object with the
  text \<^verbatim>\<open>String(error)\<close> gives for it, or a primitive with that text and its truth value.
  An object carries its \<^verbatim>\<open>code\<close> property when that is a string.
\<close>

datatype thrown =
    ErrorObject string "string option"
  | PlainObject string "string option"
  | Primitive string bool

text \<open>\<^verbatim>\<open>error instanceof Error ? error.message : String(error)\<close>\<close>

fun errorMessage :: "thrown \<Rightarrow> string" where
  "errorMessage (ErrorObject m c) = m"
| "errorMessage (PlainObject s c) = s"
| "errorMessage (Primitive s b) = s"

text \<open>\<^verbatim>\<open>error instanceof Error ? error.message : String(error) || 'Unknown server error'\<close>:
  the \<^verbatim>\<open>||\<close> binds tighter than the conditional.\<close>

fun statusMessage :: "thrown \<Rightarrow> string" where
  "statusMessage (ErrorObject m c) = m"
| "statusMessage (PlainObject s c) = (if s = [] then ''Unknown server error'' else s)"
| "statusMessage (Primitive s b) = (if s = [] then ''Unknown server error'' else s)"

text \<open>\<^verbatim>\<open>error && typeof error === 'object' && 'code' in error && error.code === '42501'\<close>\<close>

fun isRlsError :: "thrown \<Rightarrow> bool" where
  "isRlsError (ErrorObject m c) = (c = Some ''42501'')"
| "isRlsError (PlainObject s c) = (c = Some ''42501'')"
| "isRlsError (Primitive s b) = False"

fun thrownTruthy :: "thrown \<Rightarrow> bool" where
  "thrownTruthy (ErrorObject m c) = True"
| "thrownTruthy (PlainObject s c) = True"
| "thrownTruthy (Primitive s b) = b"

text \<open>
  A UTF-16 code unit. The white space of JavaScript, which \<^verbatim>\<open>\s\<close> matches and
  \<^verbatim>\<open>trim\<close> removes: the characters \<open>WhiteSpace\<close> (U+0009, U+000B, U+000C, U+FEFF and
  the space separators U+0020, U+00A0, U+1680, U+2000 to U+200A, U+202F, U+205F, U+3000)
  and \<open>LineTerminator\<close> (U+000A, U+000D, U+2028, U+2029) of ECMAScript.
\<close>

type_synonym code_unit = "16 word"

definition isWhiteSpace :: "code_unit \<Rightarrow> bool" where
  "isWhiteSpace u =
     (u \<in> {0x09, 0x0A, 0x0B, 0x0C, 0x0D, 0x20, 0xA0, 0x1680, 0x2028, 0x2029, 0x202F, 0x205F,
            0x3000, 0xFEFF}
      \<or> (0x2000 \<le> u \<and> u \<le> 0x200A))"

text \<open>\<^verbatim>\<open>s.replace(/\s/g, '_')\<close>, on a string of code units below 256.\<close>

definition replaceWhiteSpace :: "string \<Rightarrow> string" where
  "replaceWhiteSpace s = map (\<lambda>c. if isWhiteSpace (of_char c) then CHR ''_'' else c) s"

text \<open>\<^verbatim>\<open>s.trim()\<close>\<close>

definition trim :: "code_unit list \<Rightarrow> code_unit list" where
  "trim s = rev (dropWhile isWhiteSpace (rev (dropWhile isWhiteSpace s)))"

text \<open>The decimal text of a natural number, as a template literal prints it.\<close>

function decimal :: "nat \<Rightarrow> string" where
  "decimal n =
     (if n < 10 then [''0123456789'' ! n]
      else decimal (n div 10) @ [''0123456789'' ! (n mod 10)])"
  by pat_completeness auto
termination
  by (relation "measure (\<lambda>n. n)") auto

declare decimal.simps [simp del]

subsection \<open>The upload route: data\<close>

text \<open>\<^verbatim>\<open>session.user\<close>, with the two properties the handler reads.\<close>

record user_obj =
  user_id :: string
  user_email :: "string option"

text \<open>The reply of \<^verbatim>\<open>supabase.auth.getSession()\<close>:
  \<^verbatim>\<open>{ data: { session }, error: sessionError }\<close>; of the error only the message is read.\<close>

record session_reply =
  reply_session :: "user_obj option"
  reply_error :: "string option"

text \<open>\<open>itemToInsert\<close>, the row handed to \<^verbatim>\<open>insertItemWithEmbedding\<close>.\<close>

record item_row =
  item_id :: string
  item_title :: "form_value option"
  item_description :: form_value
  item_location :: "form_value option"
  item_url :: string
  item_submitter_id :: string
  item_embedding :: "real list"

text \<open>An entry of \<open>processingStatus\<close>.\<close>

record status_entry =
  entry_status :: string
  entry_message :: string
  entry_timestamp :: int

text \<open>The JSON body of a response: \<^verbatim>\<open>{ error }\<close> or
  \<^verbatim>\<open>{ success, itemId, imageUrl, processingTime }\<close>.\<close>

datatype body = ErrorBody string | SuccessBody bool string string int

record response =
  status :: nat
  contentType :: string
  body :: body

text \<open>The console lines of \<open>POST\<close>, one constructor for each call, with the values it
  prints.\<close>

datatype console_line =
    UploadApiCalled
  | SessionRetrievalError string
  | AuthCheckFailed
  | SessionRetrieved string string
  | StorageUploadErrorDetails string
  | EmptyPublicUrl string
  | InsertAttempt nat string
  | DataPayload item_row
  | InsertSuccessful string
  | InsertAttemptFailed nat thrown
  | RlsPolicyViolation
  | RetryingIn nat
  | UnhandledError thrown

text \<open>The effects of \<open>POST\<close>. \<open>Sleep\<close> is the timer of the retry loop, in milliseconds.\<close>

datatype event =
    Console console_line
  | GetSession
  | ReadFormData
  | StorageUpload string bytes
  | GetPublicUrl string
  | ComputeEmbedding bytes string
  | InsertItem item_row
  | Sleep nat

text \<open>
  The environment of one request. \<open>VECTOR_DIMENSION\<close> is imported by the route from
  \<^verbatim>\<open>@/app/utils/supabase\<close>, as is \<open>insertItemWithEmbedding\<close>; the value of the one and the
  behaviour of the other are parameters here.
  \<^item> \<open>dateNow k\<close> is the value of the \<open>k\<close>-th call of \<^verbatim>\<open>Date.now()\<close> in the request,
    counted from 0.
  \<^item> \<open>formData\<close> is the parsed form, or the value \<^verbatim>\<open>req.formData()\<close> throws.
  \<^item> \<open>storageUpload name content\<close> is the message of \<open>uploadError\<close>, if any.
  \<^item> \<open>getPublicUrl name\<close> is \<^verbatim>\<open>urlData?.publicUrl\<close>, \<open>None\<close> when it is undefined.
  \<^item> \<open>imageEmbeds content type\<close> is \<^verbatim>\<open>image_embeds.tolist()\<close>, or the value the
    embedding pipeline (lines 154 to 159) throws.
  \<^item> \<open>insertItemWithEmbedding k row\<close> is what the call throws, if anything, when \<open>k\<close>
    calls were made before it in this request.
\<close>

record env =
  VECTOR_DIMENSION :: nat
  getSession :: session_reply
  formData :: "thrown + (string \<rightharpoonup> form_value)"
  uuidv4 :: string
  dateNow :: "nat \<Rightarrow> int"
  storageUpload :: "string \<Rightarrow> bytes \<Rightarrow> string option"
  getPublicUrl :: "string \<Rightarrow> string option"
  imageEmbeds :: "bytes \<Rightarrow> string \<Rightarrow> thrown + real list list"
  insertItemWithEmbedding :: "nat \<Rightarrow> item_row \<Rightarrow> thrown option"

text \<open>The state a request runs in: the status map and the events so far.\<close>

record run =
  processingStatus :: "string \<rightharpoonup> status_entry"
  events :: "event list"

definition emit :: "event \<Rightarrow> run \<Rightarrow> run" where
  "emit e r = r\<lparr>events := events r @ [e]\<rparr>"

definition setStatus :: "string \<Rightarrow> status_entry \<Rightarrow> run \<Rightarrow> run" where
  "setStatus k v r = r\<lparr>processingStatus := (processingStatus r)(k \<mapsto> v)\<rparr>"

fun isInsert :: "event \<Rightarrow> bool" where
  "isInsert (InsertItem it) = True"
| "isInsert e = False"

fun isSleep :: "event \<Rightarrow> bool" where
  "isSleep (Sleep d) = True"
| "isSleep e = False"

fun isStorageUpload :: "event \<Rightarrow> bool" where
  "isStorageUpload (StorageUpload n b) = True"
| "isStorageUpload e = False"

fun isEmbedding :: "event \<Rightarrow> bool" where
  "isEmbedding (ComputeEmbedding b t) = True"
| "isEmbedding e = False"

definition insertCalls :: "run \<Rightarrow> nat" where
  "insertCalls r = length (filter isInsert (events r))"

text \<open>How a block of the handler ends: with \<^verbatim>\<open>return\<close> (\<open>None\<close> when the function runs
  off its end and yields \<^verbatim>\<open>undefined\<close>) or with a thrown value.\<close>

datatype completion = Returned "response option" | Threw thrown

definition jsonResponse :: "nat \<Rightarrow> body \<Rightarrow> response" where
  "jsonResponse code b = \<lparr>status = code, contentType = ''application/json'', body = b\<rparr>"

subsection \<open>The upload route: the handler\<close>

text \<open>The local variables of \<open>POST\<close> that the retry loop reads.\<close>

record locals =
  l_itemId :: string
  l_title :: "form_value option"
  l_description :: form_value
  l_location :: "form_value option"
  l_imageUrl :: string
  l_user :: user_obj
  l_imageVector :: "real list"
  l_startTime :: int

definition maxRetries :: nat where
  "maxRetries = 3"

definition itemToInsert :: "locals \<Rightarrow> item_row" where
  "itemToInsert l =
     \<lparr>item_id = l_itemId l, item_title = l_title l, item_description = l_description l,
      item_location = l_location l, item_url = l_imageUrl l,
      item_submitter_id = user_id (l_user l), item_embedding = l_imageVector l\<rparr>"

text \<open>
  Lines 171 to 232: the loop \<^verbatim>\<open>for (let attempt = 1; attempt <= maxRetries; attempt++)\<close>
  with the statement after it. \<open>attempt\<close> and \<open>lastError\<close> are the loop's variables.
\<close>

function databaseInsert ::
  "env \<Rightarrow> locals \<Rightarrow> nat \<Rightarrow> thrown option \<Rightarrow> run \<Rightarrow> completion \<times> run" where
  "databaseInsert e l attempt lastError r =
     (if attempt \<le> maxRetries then
        (let r1 = emit (Console (InsertAttempt attempt (user_id (l_user l)))) r;
             r2 = emit (Console (DataPayload (itemToInsert l))) r1;
             outcome = insertItemWithEmbedding e (insertCalls r2) (itemToInsert l);
             r3 = emit (InsertItem (itemToInsert l)) r2
         in case outcome of
              None \<Rightarrow>
                (let r4 = setStatus (l_itemId l)
                            \<lparr>entry_status = ''complete'',
                             entry_message = ''Successfully processed and stored'',
                             entry_timestamp = dateNow e 2\<rparr> r3;
                     r5 = emit (Console (InsertSuccessful (l_itemId l))) r4
                 in (Returned (Some (jsonResponse 200
                       (SuccessBody True (l_itemId l) (l_imageUrl l)
                          (dateNow e 3 - l_startTime l)))), r5))
            | Some error \<Rightarrow>
                (let r4 = emit (Console (InsertAttemptFailed attempt error)) r3;
                     r5 = (if isRlsError error then emit (Console RlsPolicyViolation) r4
                           else r4)
                 in if attempt = maxRetries then
                      (Threw (ErrorObject
                         (''Failed database insert after '' @ decimal maxRetries
                            @ '' attempts: '' @ errorMessage error) None), r5)
                    else
                      (let delay = 2 ^ attempt * 1000;
                           r6 = emit (Console (RetryingIn (delay div 1000))) r5;
                           r7 = emit (Sleep delay) r6
                       in databaseInsert e l (attempt + 1) (Some error) r7)))
      else
        (case lastError of
           None \<Rightarrow> (Returned None, r)
         | Some error \<Rightarrow> if thrownTruthy error then (Threw error, r) else (Returned None, r)))"
  by pat_completeness auto
termination
  by (relation "measure (\<lambda>(e, l, attempt, lastError, r). Suc maxRetries - attempt)") auto

declare databaseInsert.simps [simp del]

text \<open>
  Lines 124 to 164, followed by the loop: the identifier and the first status entry, the
  upload to storage, the public URL, the embedding and its dimension check.
  \<^verbatim>\<open>image.arrayBuffer()\<close> is a method of a \<^verbatim>\<open>File\<close>; on a string the call throws a
  \<^verbatim>\<open>TypeError\<close>. The variable \<open>image\<close> of the source is \<open>imageFile\<close> here. The
  \<open>description\<close> reaching this point is never falsy, so
  \<^verbatim>\<open>description || ""\<close> of line 179 is \<open>description\<close>.
\<close>

definition processItem ::
  "env \<Rightarrow> user_obj \<Rightarrow> form_value option \<Rightarrow> form_value \<Rightarrow> form_value option \<Rightarrow>
   form_value option \<Rightarrow> int \<Rightarrow> run \<Rightarrow> completion \<times> run" where
  "processItem e user title description location imageFile startTime r =
     (let itemId = uuidv4 e;
          r1 = setStatus itemId
                 \<lparr>entry_status = ''processing'', entry_message = ''Starting upload process'',
                  entry_timestamp = dateNow e 1\<rparr> r
      in case imageFile of
           None \<Rightarrow>
             (Threw (ErrorObject ''Cannot read properties of null (reading arrayBuffer)'' None), r1)
         | Some (Text s) \<Rightarrow>
             (Threw (ErrorObject ''image.arrayBuffer is not a function'' None), r1)
         | Some (FileValue f) \<Rightarrow>
             (let imageBuffer = file_content f;
                  fileName = itemId @ ''-'' @ replaceWhiteSpace (file_name f);
                  r2 = emit (StorageUpload fileName imageBuffer) r1
              in case storageUpload e fileName imageBuffer of
                   Some m \<Rightarrow>
                     (Threw (ErrorObject (''Storage upload error: '' @ m) None),
                      emit (Console (StorageUploadErrorDetails m)) r2)
                 | None \<Rightarrow>
                     (let r3 = emit (GetPublicUrl fileName) r2;
                          imageUrl = (case getPublicUrl e fileName of None \<Rightarrow> [] | Some u \<Rightarrow> u)
                      in if imageUrl = [] then
                           (Threw (ErrorObject
                              ''Failed to get public URL for uploaded image.'' None),
                            emit (Console (EmptyPublicUrl fileName)) r3)
                         else
                           (let imageType =
                                  (if file_type f = [] then ''image/jpeg'' else file_type f);
                                r4 = emit (ComputeEmbedding imageBuffer imageType) r3
                            in case imageEmbeds e imageBuffer imageType of
                                 Inl error \<Rightarrow> (Threw error, r4)
                               | Inr [] \<Rightarrow>
                                   (Threw (ErrorObject
                                      ''Cannot read properties of undefined (reading length)''
                                      None), r4)
                               | Inr (imageVector # others) \<Rightarrow>
                                   if length imageVector \<noteq> VECTOR_DIMENSION e then
                                     (Threw (ErrorObject
                                        (''Generated embedding dimension (''
                                           @ decimal (length imageVector)
                                           @ '') does not match expected dimension (''
                                           @ decimal (VECTOR_DIMENSION e) @ '')'') None), r4)
                                   else
                                     databaseInsert e
                                       \<lparr>l_itemId = itemId, l_title = title,
                                        l_description = description, l_location = location,
                                        l_imageUrl = imageUrl, l_user = user,
                                        l_imageVector = imageVector,
                                        l_startTime = startTime\<rparr>
                                       1 None r4))))"

text \<open>
  Lines 81 to 122 and then \<open>processItem\<close>: the body of the \<^verbatim>\<open>try\<close> block. The second
  component of the result is the value of the variable \<open>itemId\<close> when the block ends, which
  the \<^verbatim>\<open>catch\<close> block reads.
  \<^verbatim>\<open>formData.get('description') as string || ''\<close> is the field's value unless that is
  \<^verbatim>\<open>null\<close> or the empty string.
\<close>

definition tryBlock :: "env \<Rightarrow> run \<Rightarrow> completion \<times> string \<times> run" where
  "tryBlock e r =
     (let startTime = dateNow e 0;
          r1 = emit GetSession r
      in case reply_error (getSession e) of
           Some m \<Rightarrow>
             (Returned (Some (jsonResponse 500
                (ErrorBody (''Server error retrieving session: '' @ m)))),
              [], emit (Console (SessionRetrievalError m)) r1)
         | None \<Rightarrow>
             (case reply_session (getSession e) of
                None \<Rightarrow>
                  (Returned (Some (jsonResponse 401 (ErrorBody ''No active session''))),
                   [], emit (Console AuthCheckFailed) r1)
              | Some user \<Rightarrow>
                  (let r2 = emit (Console (SessionRetrieved (user_id user)
                                   (case user_email user of
                                      None \<Rightarrow> ''No email provided''
                                    | Some m \<Rightarrow> if m = [] then ''No email provided'' else m))) r1;
                       r3 = emit ReadFormData r2
                   in case formData e of
                        Inl error \<Rightarrow> (Threw error, [], r3)
                      | Inr form \<Rightarrow>
                          (let title = form ''title'';
                               description =
                                 (case form ''description'' of
                                    None \<Rightarrow> Text [] | Some v \<Rightarrow> v);
                               location = form ''location'';
                               imageFile = form ''image''
                           in if \<not> truthy title \<or> \<not> truthy location \<or> \<not> truthy imageFile then
                                (Returned (Some (jsonResponse 400
                                   (ErrorBody ''Missing required fields''))), [], r3)
                              else
                                (case processItem e user title description location imageFile
                                        startTime r3 of
                                   (c, r4) \<Rightarrow> (c, uuidv4 e, r4))))))"

text \<open>
  Lines 235 to 250: the general \<^verbatim>\<open>catch\<close> block, given the value of \<open>itemId\<close> and the
  thrown value. It runs after \<^verbatim>\<open>Date.now()\<close> was called twice, when \<open>itemId\<close> is set.
\<close>

definition catchBlock :: "env \<Rightarrow> string \<Rightarrow> thrown \<Rightarrow> run \<Rightarrow> response option \<times> run" where
  "catchBlock e itemId error r =
     (let r1 = emit (Console (UnhandledError error)) r;
          r2 = (if itemId \<noteq> [] then
                  setStatus itemId
                    \<lparr>entry_status = ''error'', entry_message = statusMessage error,
                     entry_timestamp = dateNow e 2\<rparr> r1
                else r1)
      in (Some (jsonResponse 500 (ErrorBody (''Upload failed: '' @ errorMessage error))), r2))"

text \<open>
  \<open>POST\<close>: the \<^verbatim>\<open>try\<close> block and the \<^verbatim>\<open>catch\<close> block. The handler is given the status
  map of the process and yields its response, the new map and the events of the request.
\<close>

definition POST :: "env \<Rightarrow> (string \<rightharpoonup> status_entry) \<Rightarrow> response option \<times> run" where
  "POST e ps =
     (let r = emit (Console UploadApiCalled) \<lparr>processingStatus = ps, events = []\<rparr>
      in case tryBlock e r of
           (Returned resp, itemId, r1) \<Rightarrow> (resp, r1)
         | (Threw error, itemId, r1) \<Rightarrow> catchBlock e itemId error r1)"

subsection \<open>The main page: text search\<close>

text \<open>A JavaScript number, as far as the handler distinguishes its values.\<close>

datatype js_number = NaN | Finite real | PosInfinity | NegInfinity

fun isNaN :: "js_number \<Rightarrow> bool" where
  "isNaN NaN = True"
| "isNaN n = False"

text \<open>\<^verbatim>\<open>n < 1\<close>\<close>

fun lessThanOne :: "js_number \<Rightarrow> bool" where
  "lessThanOne (Finite x) = (x < 1)"
| "lessThanOne NegInfinity = True"
| "lessThanOne n = False"

text \<open>The interface \<open>Item\<close> of the page.\<close>

record search_item =
  si_id :: string
  si_title :: string
  si_description :: "string option"
  si_location :: string
  si_created_at :: "string option"
  si_profiles :: "string option"
  si_item_images :: "string list"
  si_score :: "js_number option"

text \<open>The state variables of \<open>MainPage\<close> that \<open>handleTextSearch\<close> reads or sets.\<close>

record page_state =
  similarityThreshold :: real
  maxResults :: string
  customMaxResults :: string
  items :: "search_item list"
  loading :: bool
  searchQuery :: "code_unit list"
  searchProgress :: string
  searchStatusMessage :: string

text \<open>The JSON body sent to \<^verbatim>\<open>/api/search/text\<close>; \<open>None\<close> is \<^verbatim>\<open>undefined\<close>.\<close>

record search_request =
  req_query :: "code_unit list"
  req_threshold :: real
  req_maxResults :: "js_number option"

text \<open>The parsed body of the reply: \<^verbatim>\<open>data.items\<close> and \<^verbatim>\<open>data.error\<close>, \<open>None\<close> when
  absent.\<close>

record search_data =
  data_items :: "search_item list option"
  data_error :: "string option"

text \<open>The reply of \<^verbatim>\<open>fetch\<close>: \<^verbatim>\<open>response.ok\<close> and the result of
  \<^verbatim>\<open>response.json()\<close>, which is the message of the error when the promise rejects.\<close>

record fetch_reply =
  reply_ok :: bool
  reply_json :: "string + search_data"

text \<open>
  What the page calls: the built-in \<^verbatim>\<open>Number\<close> on strings, and \<^verbatim>\<open>fetch\<close>, which
  yields a reply or rejects with an error whose message is given.
\<close>

record browser =
  Number :: "string \<Rightarrow> js_number"
  fetch :: "string \<Rightarrow> search_request \<Rightarrow> string + fetch_reply"

text \<open>The effects of \<open>handleTextSearch\<close> outside the state of the page.\<close>

datatype ui_event =
    Fetch string search_request
  | Alert string
  | ConsoleError string

text \<open>Lines 206 to 209, when the reply was parsed.\<close>

definition showResults :: "fetch_reply \<Rightarrow> search_data \<Rightarrow> page_state \<Rightarrow> string + page_state" where
  "showResults reply data s =
     (if \<not> reply_ok reply then
        Inl (case data_error data of
               None \<Rightarrow> ''Search failed''
             | Some m \<Rightarrow> if m = [] then ''Search failed'' else m)
      else
        Inr (s\<lparr>items := (case data_items data of None \<Rightarrow> [] | Some xs \<Rightarrow> xs),
               searchProgress := ''complete'',
               searchStatusMessage :=
                 ''Found '' @ decimal (case data_items data of None \<Rightarrow> 0 | Some xs \<Rightarrow> length xs)
                   @ '' items''\<rparr>))"

text \<open>Lines 210 to 214: the \<^verbatim>\<open>catch\<close> block, given the message of the error.\<close>

definition searchFailed :: "string \<Rightarrow> page_state \<Rightarrow> ui_event list \<Rightarrow> page_state \<times> ui_event list" where
  "searchFailed m s evs =
     (s\<lparr>items := [], searchProgress := ''error'', searchStatusMessage := ''Error: '' @ m\<rparr>,
      evs @ [ConsoleError m])"

text \<open>Lines 194 to 209: the request and the handling of its reply.\<close>

definition sendSearch ::
  "browser \<Rightarrow> js_number option \<Rightarrow> page_state \<Rightarrow> page_state \<times> ui_event list" where
  "sendSearch b maxResultsNum s =
     (let request = \<lparr>req_query = searchQuery s, req_threshold = similarityThreshold s,
                      req_maxResults = maxResultsNum\<rparr>;
          evs = [Fetch ''/api/search/text'' request]
      in case fetch b ''/api/search/text'' request of
           Inl m \<Rightarrow> searchFailed m s evs
         | Inr reply \<Rightarrow>
             (case reply_json reply of
                Inl m \<Rightarrow> searchFailed m s evs
              | Inr data \<Rightarrow>
                  (case showResults reply data s of
                     Inl m \<Rightarrow> searchFailed m s evs
                   | Inr s1 \<Rightarrow> (s1, evs))))"

text \<open>
  \<open>handleTextSearch\<close>, lines 169 to 218. The constant \<open>maxResultsNum\<close> of line 171 is
  shadowed by the variable of line 182 and never read. The \<^verbatim>\<open>finally\<close> block sets
  \<open>loading\<close> to false on every way out of the \<^verbatim>\<open>try\<close> block.
\<close>

definition handleTextSearch :: "browser \<Rightarrow> page_state \<Rightarrow> page_state \<times> ui_event list" where
  "handleTextSearch b s =
     (if trim (searchQuery s) = [] then (s\<lparr>items := []\<rparr>, [])
      else
        (let s1 = s\<lparr>loading := True, searchProgress := ''searching'',
                    searchStatusMessage := ''Searching for items...''\<rparr>;
             (s2, evs) =
               (if maxResults s1 = ''custom'' then
                  (if customMaxResults s1 = [] \<or> isNaN (Number b (customMaxResults s1))
                      \<or> lessThanOne (Number b (customMaxResults s1)) then
                     (s1\<lparr>loading := False\<rparr>,
                      [Alert ''Please enter a valid positive number for custom max results.''])
                   else sendSearch b (Some (Number b (customMaxResults s1))) s1)
                else if maxResults s1 \<noteq> ''all'' then
                  sendSearch b (Some (Number b (maxResults s1))) s1
                else sendSearch b None s1)
         in (s2\<lparr>loading := False\<rparr>, evs)))"

fun isFetch :: "ui_event \<Rightarrow> bool" where
  "isFetch (Fetch u q) = True"
| "isFetch ev = False"

section \<open>Properties of the upload route\<close>

subsection \<open>Vocabulary\<close>

text \<open>The events of one attempt of the loop up to the call, and those of a failed call.\<close>

definition attemptEvents :: "locals \<Rightarrow> nat \<Rightarrow> event list" where
  "attemptEvents l attempt =
     [Console (InsertAttempt attempt (user_id (l_user l))),
      Console (DataPayload (itemToInsert l)), InsertItem (itemToInsert l)]"

definition failureEvents :: "nat \<Rightarrow> thrown \<Rightarrow> event list" where
  "failureEvents attempt error =
     Console (InsertAttemptFailed attempt error)
       # (if isRlsError error then [Console RlsPolicyViolation] else [])"

definition retryEvents :: "locals \<Rightarrow> nat \<Rightarrow> thrown \<Rightarrow> event list" where
  "retryEvents l attempt error =
     attemptEvents l attempt @ failureEvents attempt error
       @ [Console (RetryingIn (2 ^ attempt)), Sleep (2 ^ attempt * 1000)]"

definition emits :: "event list \<Rightarrow> run \<Rightarrow> run" where
  "emits evs r = r\<lparr>events := events r @ evs\<rparr>"

text \<open>The two ways the loop ends: a call that succeeds at some attempt, and the third
  call failing.\<close>

definition succeed :: "env \<Rightarrow> locals \<Rightarrow> nat \<Rightarrow> run \<Rightarrow> completion \<times> run" where
  "succeed e l attempt r =
     (Returned (Some (jsonResponse 200
        (SuccessBody True (l_itemId l) (l_imageUrl l) (dateNow e 3 - l_startTime l)))),
      emits (attemptEvents l attempt @ [Console (InsertSuccessful (l_itemId l))])
        (setStatus (l_itemId l)
           \<lparr>entry_status = ''complete'',
            entry_message = ''Successfully processed and stored'',
            entry_timestamp = dateNow e 2\<rparr> r))"

definition giveUp :: "locals \<Rightarrow> thrown \<Rightarrow> run \<Rightarrow> completion \<times> run" where
  "giveUp l error r =
     (Threw (ErrorObject
        (''Failed database insert after 3 attempts: '' @ errorMessage error) None),
      emits (attemptEvents l maxRetries @ failureEvents maxRetries error) r)"

text \<open>
  The conditions on the environment under which a request passes each stage before the
  loop: a session without error; a form with a title, a location and an image file; an
  upload without error and a public URL that is not empty; an embedding of the expected
  dimension.
\<close>

definition fileNameOf :: "env \<Rightarrow> file_obj \<Rightarrow> string" where
  "fileNameOf e f = uuidv4 e @ ''-'' @ replaceWhiteSpace (file_name f)"

definition imageTypeOf :: "file_obj \<Rightarrow> string" where
  "imageTypeOf f = (if file_type f = [] then ''image/jpeg'' else file_type f)"

definition authenticated :: "env \<Rightarrow> user_obj \<Rightarrow> bool" where
  "authenticated e user =
     (reply_error (getSession e) = None \<and> reply_session (getSession e) = Some user)"

definition validated :: "env \<Rightarrow> (string \<rightharpoonup> form_value) \<Rightarrow> file_obj \<Rightarrow> bool" where
  "validated e form f =
     (formData e = Inr form \<and> truthy (form ''title'') \<and> truthy (form ''location'')
      \<and> form ''image'' = Some (FileValue f))"

definition stored :: "env \<Rightarrow> file_obj \<Rightarrow> bool" where
  "stored e f = (storageUpload e (fileNameOf e f) (file_content f) = None)"

definition uploaded :: "env \<Rightarrow> file_obj \<Rightarrow> string \<Rightarrow> bool" where
  "uploaded e f url =
     (stored e f \<and> getPublicUrl e (fileNameOf e f) = Some url \<and> url \<noteq> [])"

definition embedded :: "env \<Rightarrow> file_obj \<Rightarrow> real list \<Rightarrow> real list list \<Rightarrow> bool" where
  "embedded e f v others =
     (imageEmbeds e (file_content f) (imageTypeOf f) = Inr (v # others)
      \<and> length v = VECTOR_DIMENSION e)"

text \<open>The local variables, the row and the run at the start of the loop, for a request
  that passes these stages.\<close>

definition localsOf ::
  "env \<Rightarrow> user_obj \<Rightarrow> (string \<rightharpoonup> form_value) \<Rightarrow> string \<Rightarrow> real list \<Rightarrow> locals" where
  "localsOf e user form url v =
     \<lparr>l_itemId = uuidv4 e, l_title = form ''title'',
      l_description = (case form ''description'' of None \<Rightarrow> Text [] | Some d \<Rightarrow> d),
      l_location = form ''location'', l_imageUrl = url, l_user = user,
      l_imageVector = v, l_startTime = dateNow e 0\<rparr>"

definition rowOf ::
  "env \<Rightarrow> user_obj \<Rightarrow> (string \<rightharpoonup> form_value) \<Rightarrow> string \<Rightarrow> real list \<Rightarrow> item_row" where
  "rowOf e user form url v = itemToInsert (localsOf e user form url v)"

definition emailOf :: "user_obj \<Rightarrow> string" where
  "emailOf user =
     (case user_email user of
        None \<Rightarrow> ''No email provided''
      | Some m \<Rightarrow> if m = [] then ''No email provided'' else m)"

definition processingEntry :: "env \<Rightarrow> status_entry" where
  "processingEntry e =
     \<lparr>entry_status = ''processing'', entry_message = ''Starting upload process'',
      entry_timestamp = dateNow e 1\<rparr>"

definition formEvents :: "user_obj \<Rightarrow> event list" where
  "formEvents user =
     [Console UploadApiCalled, GetSession,
      Console (SessionRetrieved (user_id user) (emailOf user)), ReadFormData]"

definition preludeEvents :: "env \<Rightarrow> user_obj \<Rightarrow> file_obj \<Rightarrow> event list" where
  "preludeEvents e user f =
     formEvents user
       @ [StorageUpload (fileNameOf e f) (file_content f), GetPublicUrl (fileNameOf e f),
          ComputeEmbedding (file_content f) (imageTypeOf f)]"

definition runBeforeInsert ::
  "env \<Rightarrow> (string \<rightharpoonup> status_entry) \<Rightarrow> user_obj \<Rightarrow> file_obj \<Rightarrow> run" where
  "runBeforeInsert e ps user f =
     \<lparr>processingStatus = ps(uuidv4 e \<mapsto> processingEntry e),
      events = preludeEvents e user f\<rparr>"

definition finish :: "env \<Rightarrow> completion \<times> run \<Rightarrow> response option \<times> run" where
  "finish e cr =
     (case cr of
        (Returned resp, r) \<Rightarrow> (resp, r)
      | (Threw error, r) \<Rightarrow> catchBlock e (uuidv4 e) error r)"

text \<open>Projections of the events: the calls that write outside the handler, and the calls
  of the loop with its timers.\<close>

definition sideEffect :: "event \<Rightarrow> bool" where
  "sideEffect ev = (isStorageUpload ev \<or> isEmbedding ev \<or> isInsert ev)"

definition insertOrSleep :: "event \<Rightarrow> bool" where
  "insertOrSleep ev = (isInsert ev \<or> isSleep ev)"

text \<open>The same thrown value without its \<open>code\<close> property, and the environment in which
  every value thrown by \<open>insertItemWithEmbedding\<close> has lost it.\<close>

fun withoutCode :: "thrown \<Rightarrow> thrown" where
  "withoutCode (ErrorObject m c) = ErrorObject m None"
| "withoutCode (PlainObject s c) = PlainObject s None"
| "withoutCode (Primitive s b) = Primitive s b"

definition withoutCodes :: "env \<Rightarrow> env" where
  "withoutCodes e =
     e\<lparr>insertItemWithEmbedding :=
         (\<lambda>k row. map_option withoutCode (insertItemWithEmbedding e k row))\<rparr>"

fun isConsole :: "event \<Rightarrow> bool" where
  "isConsole (Console c) = True"
| "isConsole ev = False"

definition effects :: "event list \<Rightarrow> event list" where
  "effects evs = filter (\<lambda>ev. \<not> isConsole ev) evs"

text \<open>The console line for a violated policy, and the line for a failed attempt whose
  thrown value has the code 42501.\<close>

fun isRlsLine :: "event \<Rightarrow> bool" where
  "isRlsLine (Console RlsPolicyViolation) = True"
| "isRlsLine ev = False"

fun isRlsFailure :: "event \<Rightarrow> bool" where
  "isRlsFailure (Console (InsertAttemptFailed k error)) = isRlsError error"
| "isRlsFailure ev = False"

subsection \<open>Sample requests\<close>

definition sampleUser :: user_obj where
  "sampleUser = \<lparr>user_id = ''user-1'', user_email = Some ''finder@example.org''\<rparr>"

definition sampleFile :: file_obj where
  "sampleFile =
     \<lparr>file_name = ''red bag.png'', file_type = ''image/png'', file_content = [137, 80, 78, 71]\<rparr>"

definition sampleForm :: "string \<rightharpoonup> form_value" where
  "sampleForm =
     [''title'' \<mapsto> Text ''Red bag'', ''location'' \<mapsto> Text ''Library'',
      ''image'' \<mapsto> FileValue sampleFile]"

definition sampleUrl :: string where
  "sampleUrl = ''https://store.example/item-1-red_bag.png''"

definition sampleVector :: "real list" where
  "sampleVector = [1 / 2, - 1 / 4]"

text \<open>A request that passes every stage before the loop; the outcomes of the calls of
  \<open>insertItemWithEmbedding\<close> are the parameter.\<close>

definition sampleEnv :: "(nat \<Rightarrow> thrown option) \<Rightarrow> env" where
  "sampleEnv outcomes =
     \<lparr>VECTOR_DIMENSION = 2,
      getSession = \<lparr>reply_session = Some sampleUser, reply_error = None\<rparr>,
      formData = Inr sampleForm,
      uuidv4 = ''item-1'',
      dateNow = (\<lambda>k. 1000 + int k),
      storageUpload = (\<lambda>n b. None),
      getPublicUrl = (\<lambda>n. Some sampleUrl),
      imageEmbeds = (\<lambda>b t. Inr [sampleVector]),
      insertItemWithEmbedding = (\<lambda>k row. outcomes k)\<rparr>"

definition timeout :: thrown where
  "timeout = ErrorObject ''connection timed out'' None"

definition rlsRejection :: thrown where
  "rlsRejection = PlainObject ''[object Object]'' (Some ''42501'')"

text \<open>Outcomes of the calls of \<open>insertItemWithEmbedding\<close>, by the number of earlier
  calls.\<close>

definition failOnce :: "nat \<Rightarrow> thrown option" where
  "failOnce k = (if k = 0 then Some timeout else None)"

definition failTwice :: "nat \<Rightarrow> thrown option" where
  "failTwice k = (if k < 2 then Some timeout else None)"

definition failAlways :: "nat \<Rightarrow> thrown option" where
  "failAlways k = Some timeout"

definition rejectAlways :: "nat \<Rightarrow> thrown option" where
  "rejectAlways k = Some rlsRejection"

definition sampleRow :: item_row where
  "sampleRow =
     \<lparr>item_id = ''item-1'', item_title = Some (Text ''Red bag''), item_description = Text [],
      item_location = Some (Text ''Library''), item_url = sampleUrl,
      item_submitter_id = ''user-1'', item_embedding = sampleVector\<rparr>"

text \<open>Variants of the sample request: the session cannot be retrieved; there is no
  session; the form has no title; the image is a file without content.\<close>

definition succeedAlways :: "nat \<Rightarrow> thrown option" where
  "succeedAlways k = None"

definition sessionErrorEnv :: env where
  "sessionErrorEnv =
     (sampleEnv succeedAlways)
       \<lparr>getSession := \<lparr>reply_session = None, reply_error = Some ''fetch failed''\<rparr>\<rparr>"

definition noSessionEnv :: env where
  "noSessionEnv =
     (sampleEnv succeedAlways)\<lparr>getSession := \<lparr>reply_session = None, reply_error = None\<rparr>\<rparr>"

definition noTitleForm :: "string \<rightharpoonup> form_value" where
  "noTitleForm = [''location'' \<mapsto> Text ''Library'', ''image'' \<mapsto> FileValue sampleFile]"

definition noTitleEnv :: env where
  "noTitleEnv = (sampleEnv succeedAlways)\<lparr>formData := Inr noTitleForm\<rparr>"

definition emptyFile :: file_obj where
  "emptyFile = \<lparr>file_name = ''empty.png'', file_type = ''image/png'', file_content = []\<rparr>"

definition emptyImageForm :: "string \<rightharpoonup> form_value" where
  "emptyImageForm =
     [''title'' \<mapsto> Text ''Red bag'', ''location'' \<mapsto> Text ''Library'',
      ''image'' \<mapsto> FileValue emptyFile]"

definition emptyImageEnv :: env where
  "emptyImageEnv = (sampleEnv succeedAlways)\<lparr>formData := Inr emptyImageForm\<rparr>"

text \<open>Further variants: the object store gives no public URL; the embedding has one
  component where two are expected.\<close>

definition noUrlEnv :: env where
  "noUrlEnv = (sampleEnv succeedAlways)\<lparr>getPublicUrl := (\<lambda>n. None)\<rparr>"

definition shortVectorEnv :: env where
  "shortVectorEnv = (sampleEnv succeedAlways)\<lparr>imageEmbeds := (\<lambda>b t. Inr [[1 / 2]])\<rparr>"

text \<open>A page that shows one item from an earlier search, with a query of a space, a tab
  and an ideographic space; and a browser whose \<open>fetch\<close> always answers with that item.\<close>

definition sampleItem :: search_item where
  "sampleItem =
     \<lparr>si_id = ''item-1'', si_title = ''Red bag'', si_description = None,
      si_location = ''Library'', si_created_at = None, si_profiles = None,
      si_item_images = [sampleUrl], si_score = Some (Finite (9 / 10))\<rparr>"

definition blankQueryPage :: page_state where
  "blankQueryPage =
     \<lparr>similarityThreshold = 1 / 10, maxResults = ''20'', customMaxResults = [],
      items = [sampleItem], loading = False,
      searchQuery = [0x20, 0x09, 0x3000],
      searchProgress = ''idle'', searchStatusMessage = []\<rparr>"

definition sampleBrowser :: browser where
  "sampleBrowser =
     \<lparr>Number = (\<lambda>t. if t = ''20'' then Finite 20 else NaN),
      fetch = (\<lambda>u q. Inr \<lparr>reply_ok = True,
                 reply_json = Inr \<lparr>data_items = Some [sampleItem], data_error = None\<rparr>\<rparr>)\<rparr>"

subsection \<open>Runs and events\<close>

lemma events_emit [simp]: "events (emit ev r) = events r @ [ev]"
  by (simp add: emit_def)

lemma processingStatus_emit [simp]: "processingStatus (emit ev r) = processingStatus r"
  by (simp add: emit_def)

lemma events_setStatus [simp]: "events (setStatus k v r) = events r"
  by (simp add: setStatus_def)

lemma processingStatus_setStatus [simp]:
  "processingStatus (setStatus k v r) = (processingStatus r)(k \<mapsto> v)"
  by (simp add: setStatus_def)

lemma insertCalls_setStatus [simp]: "insertCalls (setStatus k v r) = insertCalls r"
  by (simp add: insertCalls_def)

lemma emit_emits: "emit ev r = emits [ev] r"
  by (simp add: emit_def emits_def)

lemma emits_emits [simp]: "emits b (emits a r) = emits (a @ b) r"
  by (simp add: emits_def)

lemma events_emits [simp]: "events (emits evs r) = events r @ evs"
  by (simp add: emits_def)

lemma processingStatus_emits [simp]: "processingStatus (emits evs r) = processingStatus r"
  by (simp add: emits_def)

lemma insertCalls_emits [simp]:
  "insertCalls (emits evs r) = insertCalls r + length (filter isInsert evs)"
  by (simp add: insertCalls_def emits_def)

lemma emits_setStatus: "emits evs (setStatus k v r) = setStatus k v (emits evs r)"
  by (simp add: emits_def setStatus_def)

lemma decimal_maxRetries: "decimal maxRetries = ''3''"
  by (simp add: maxRetries_def decimal.simps)

lemma filter_attemptEvents [simp]:
  "filter isInsert (attemptEvents l k) = [InsertItem (itemToInsert l)]"
  "filter insertOrSleep (attemptEvents l k) = [InsertItem (itemToInsert l)]"
  "filter sideEffect (attemptEvents l k) = [InsertItem (itemToInsert l)]"
  by (simp_all add: attemptEvents_def insertOrSleep_def sideEffect_def)

lemma filter_failureEvents [simp]:
  "filter isInsert (failureEvents k error) = []"
  "filter insertOrSleep (failureEvents k error) = []"
  by (simp_all add: failureEvents_def insertOrSleep_def)

lemma filter_retryEvents [simp]:
  "filter isInsert (retryEvents l k error) = [InsertItem (itemToInsert l)]"
  "filter insertOrSleep (retryEvents l k error) =
     [InsertItem (itemToInsert l), Sleep (2 ^ k * 1000)]"
  by (simp_all add: retryEvents_def) (simp add: insertOrSleep_def)

lemma filter_preludeEvents [simp]:
  "filter isInsert (preludeEvents e user f) = []"
  "filter insertOrSleep (preludeEvents e user f) = []"
  by (simp_all add: preludeEvents_def formEvents_def insertOrSleep_def)

lemma insertCalls_runBeforeInsert [simp]: "insertCalls (runBeforeInsert e ps user f) = 0"
  by (simp add: insertCalls_def runBeforeInsert_def)

lemma localsOf_sel [simp]:
  "l_itemId (localsOf e user form url v) = uuidv4 e"
  "l_imageUrl (localsOf e user form url v) = url"
  "l_startTime (localsOf e user form url v) = dateNow e 0"
  "l_imageVector (localsOf e user form url v) = v"
  "l_user (localsOf e user form url v) = user"
  by (simp_all add: localsOf_def)

lemma itemToInsert_localsOf [simp]:
  "itemToInsert (localsOf e user form url v) = rowOf e user form url v"
  by (simp add: rowOf_def)

lemma events_catchBlock [simp]:
  "events (snd (catchBlock e i error r)) = events r @ [Console (UnhandledError error)]"
  by (simp add: catchBlock_def Let_def)

lemma fst_catchBlock [simp]:
  "fst (catchBlock e i error r) =
   Some (jsonResponse 500 (ErrorBody (''Upload failed: '' @ errorMessage error)))"
  by (simp add: catchBlock_def Let_def)

lemma processingStatus_catchBlock [simp]:
  "processingStatus (snd (catchBlock e i error r)) =
   (if i \<noteq> [] then
      (processingStatus r)(i \<mapsto>
         \<lparr>entry_status = ''error'', entry_message = statusMessage error,
          entry_timestamp = dateNow e 2\<rparr>)
    else processingStatus r)"
  by (simp add: catchBlock_def Let_def)

subsection \<open>The retry loop, one step at a time\<close>

lemma databaseInsert_retry:
  assumes "attempt < maxRetries"
    and "insertItemWithEmbedding e (insertCalls r) (itemToInsert l) = Some error"
  shows "databaseInsert e l attempt lastError r =
         databaseInsert e l (Suc attempt) (Some error) (emits (retryEvents l attempt error) r)"
  using assms
  by (subst databaseInsert.simps)
     (simp add: Let_def emit_emits attemptEvents_def failureEvents_def retryEvents_def)

lemma databaseInsert_giveUp:
  assumes "insertItemWithEmbedding e (insertCalls r) (itemToInsert l) = Some error"
  shows "databaseInsert e l maxRetries lastError r = giveUp l error r"
  using assms
  by (subst databaseInsert.simps)
     (simp add: Let_def emit_emits attemptEvents_def failureEvents_def decimal_maxRetries
        giveUp_def)

lemma databaseInsert_succeed:
  assumes "attempt \<le> maxRetries"
    and "insertItemWithEmbedding e (insertCalls r) (itemToInsert l) = None"
  shows "databaseInsert e l attempt lastError r = succeed e l attempt r"
  using assms
  by (subst databaseInsert.simps)
     (simp add: Let_def emit_emits attemptEvents_def emits_setStatus succeed_def)

text \<open>
  The whole loop from its first attempt, when no call was made before: at most three
  calls, whose outcomes decide the result.
\<close>

lemma databaseInsert_unrolled:
  assumes "insertCalls r = 0"
  shows "databaseInsert e l 1 None r =
     (case insertItemWithEmbedding e 0 (itemToInsert l) of
        None \<Rightarrow> succeed e l 1 r
      | Some error1 \<Rightarrow>
          (case insertItemWithEmbedding e 1 (itemToInsert l) of
             None \<Rightarrow> succeed e l 2 (emits (retryEvents l 1 error1) r)
           | Some error2 \<Rightarrow>
               (case insertItemWithEmbedding e 2 (itemToInsert l) of
                  None \<Rightarrow>
                    succeed e l 3 (emits (retryEvents l 1 error1 @ retryEvents l 2 error2) r)
                | Some error3 \<Rightarrow>
                    giveUp l error3
                      (emits (retryEvents l 1 error1 @ retryEvents l 2 error2) r))))"
proof (cases "insertItemWithEmbedding e 0 (itemToInsert l)")
  case None
  then show ?thesis
    using assms by (simp add: databaseInsert_succeed maxRetries_def)
next
  case first: (Some error1)
  let ?r1 = "emits (retryEvents l 1 error1) r"
  have calls1: "insertCalls ?r1 = 1"
    using assms by simp
  have step1: "databaseInsert e l 1 None r = databaseInsert e l 2 (Some error1) ?r1"
    using databaseInsert_retry [of 1 e r l error1 None] first assms
    by (simp add: maxRetries_def numeral_2_eq_2)
  show ?thesis
  proof (cases "insertItemWithEmbedding e 1 (itemToInsert l)")
    case None
    then show ?thesis
      using first step1 calls1 by (simp add: databaseInsert_succeed maxRetries_def)
  next
    case second: (Some error2)
    let ?r2 = "emits (retryEvents l 1 error1 @ retryEvents l 2 error2) r"
    have calls2: "insertCalls ?r2 = 2"
      using assms by simp
    have step2: "databaseInsert e l 2 (Some error1) ?r1 = databaseInsert e l 3 (Some error2) ?r2"
      using databaseInsert_retry [of 2 e ?r1 l error2 "Some error1"] second calls1
      by (simp add: maxRetries_def numeral_3_eq_3 numeral_2_eq_2)
    show ?thesis
    proof (cases "insertItemWithEmbedding e 2 (itemToInsert l)")
      case None
      then have "databaseInsert e l 3 (Some error2) ?r2 = succeed e l 3 ?r2"
        using assms
        by (intro databaseInsert_succeed) (simp_all add: maxRetries_def numeral_2_eq_2)
      then show ?thesis
        using first second None step1 step2 by simp
    next
      case (Some error3)
      then have "databaseInsert e l maxRetries (Some error2) ?r2 = giveUp l error3 ?r2"
        using assms by (intro databaseInsert_giveUp) (simp add: numeral_2_eq_2)
      then show ?thesis
        using first second Some step1 step2 by (simp add: maxRetries_def)
    qed
  qed
qed

text \<open>A request that passes the stages before the loop is the loop, followed by the
  \<^verbatim>\<open>catch\<close> block when the loop throws.\<close>

lemma POST_insert_stage:
  assumes "authenticated e user" and "validated e form f" and "uploaded e f url"
    and "embedded e f v others"
  shows "POST e ps =
         finish e (databaseInsert e (localsOf e user form url v) 1 None
                     (runBeforeInsert e ps user f))"
  using assms
  by (simp add: POST_def tryBlock_def processItem_def authenticated_def validated_def
        uploaded_def stored_def embedded_def fileNameOf_def imageTypeOf_def Let_def finish_def
        localsOf_def runBeforeInsert_def preludeEvents_def formEvents_def emailOf_def
        processingEntry_def emit_def setStatus_def
      split: prod.splits completion.splits)

lemma POST_unrolled:
  assumes "authenticated e user" and "validated e form f" and "uploaded e f url"
    and "embedded e f v others"
  shows "POST e ps =
     finish e
       (case insertItemWithEmbedding e 0 (rowOf e user form url v) of
          None \<Rightarrow> succeed e (localsOf e user form url v) 1 (runBeforeInsert e ps user f)
        | Some error1 \<Rightarrow>
            (case insertItemWithEmbedding e 1 (rowOf e user form url v) of
               None \<Rightarrow>
                 succeed e (localsOf e user form url v) 2
                   (emits (retryEvents (localsOf e user form url v) 1 error1)
                      (runBeforeInsert e ps user f))
             | Some error2 \<Rightarrow>
                 (case insertItemWithEmbedding e 2 (rowOf e user form url v) of
                    None \<Rightarrow>
                      succeed e (localsOf e user form url v) 3
                        (emits (retryEvents (localsOf e user form url v) 1 error1
                                @ retryEvents (localsOf e user form url v) 2 error2)
                           (runBeforeInsert e ps user f))
                  | Some error3 \<Rightarrow>
                      giveUp (localsOf e user form url v) error3
                        (emits (retryEvents (localsOf e user form url v) 1 error1
                                @ retryEvents (localsOf e user form url v) 2 error2)
                           (runBeforeInsert e ps user f)))))"
  unfolding POST_insert_stage [OF assms]
  by (subst databaseInsert_unrolled) (simp_all split: option.splits)

lemma sample_stages:
  "authenticated (sampleEnv os) sampleUser"
  "validated (sampleEnv os) sampleForm sampleFile"
  "uploaded (sampleEnv os) sampleFile sampleUrl"
  "embedded (sampleEnv os) sampleFile sampleVector []"
  by (simp_all add: authenticated_def validated_def uploaded_def stored_def embedded_def
        sampleEnv_def sampleForm_def sampleUrl_def sampleVector_def)

lemma sample_rowOf:
  "rowOf (sampleEnv os) sampleUser sampleForm sampleUrl sampleVector = sampleRow"
  by (simp add: rowOf_def localsOf_def itemToInsert_def sampleEnv_def sampleForm_def
        sampleUser_def sampleRow_def)

lemma sample_outcome: "insertItemWithEmbedding (sampleEnv os) k row = os k"
  by (simp add: sampleEnv_def)

lemma sample_fields:
  "uuidv4 (sampleEnv os) = ''item-1''"
  "dateNow (sampleEnv os) k = 1000 + int k"
  "VECTOR_DIMENSION (sampleEnv os) = 2"
  by (simp_all add: sampleEnv_def)

section \<open>The claims about the retry loop\<close>

text \<open>
  C1. For a request that passes authentication, validation, the storage upload and the
  embedding generation, and whose database insert fails on the first two attempts and
  succeeds on the third: the handler answers with the success response (status 200), it
  calls \<open>insertItemWithEmbedding\<close> exactly three times, and it waits 2000 ms between the
  first and the second call and 4000 ms between the second and the third.
\<close>

theorem third_attempt_succeeds:
  assumes "authenticated e user" and "validated e form f" and "uploaded e f url"
    and "embedded e f v others"
    and "insertItemWithEmbedding e 0 (rowOf e user form url v) = Some error1"
    and "insertItemWithEmbedding e 1 (rowOf e user form url v) = Some error2"
    and "insertItemWithEmbedding e 2 (rowOf e user form url v) = None"
  shows "fst (POST e ps) =
           Some (jsonResponse 200
             (SuccessBody True (uuidv4 e) url (dateNow e 3 - dateNow e 0)))
         \<and> length (filter isInsert (events (snd (POST e ps)))) = 3
         \<and> filter insertOrSleep (events (snd (POST e ps))) =
             [InsertItem (rowOf e user form url v), Sleep 2000,
              InsertItem (rowOf e user form url v), Sleep 4000,
              InsertItem (rowOf e user form url v)]"
  unfolding POST_unrolled [OF assms(1-4)]
  using assms(5-7)
  by (simp add: finish_def succeed_def runBeforeInsert_def insertOrSleep_def)

theorem third_attempt_succeeds_witness:
  "fst (POST (sampleEnv failTwice) Map.empty) =
     Some (jsonResponse 200 (SuccessBody True ''item-1'' sampleUrl 3))
   \<and> length (filter isInsert
        (events (snd (POST (sampleEnv failTwice) Map.empty)))) = 3
   \<and> filter insertOrSleep
        (events (snd (POST (sampleEnv failTwice) Map.empty))) =
      [InsertItem sampleRow, Sleep 2000, InsertItem sampleRow, Sleep 4000, InsertItem sampleRow]"
  using third_attempt_succeeds
    [of "sampleEnv failTwice" sampleUser sampleForm
        sampleFile sampleUrl sampleVector "[]" timeout timeout Map.empty]
  by (simp add: sample_stages sample_rowOf sample_outcome sample_fields failTwice_def)

text \<open>
  C2. For a request that reaches the loop and whose database insert fails on every
  attempt: \<open>insertItemWithEmbedding\<close> is called exactly three times, the response has
  status 500 and its error text ends with the message of the last thrown value (its
  \<open>message\<close> when it is an \<open>Error\<close>, its text otherwise), and the entry of the item in
  \<open>processingStatus\<close> has the status \<open>error\<close>. The identifier \<open>uuidv4\<close> yields is not
  empty.
\<close>

theorem every_attempt_fails:
  assumes "authenticated e user" and "validated e form f" and "uploaded e f url"
    and "embedded e f v others"
    and "insertItemWithEmbedding e 0 (rowOf e user form url v) = Some error1"
    and "insertItemWithEmbedding e 1 (rowOf e user form url v) = Some error2"
    and "insertItemWithEmbedding e 2 (rowOf e user form url v) = Some error3"
    and "uuidv4 e \<noteq> []"
  shows "length (filter isInsert (events (snd (POST e ps)))) = 3
         \<and> fst (POST e ps) =
             Some (jsonResponse 500 (ErrorBody
               (''Upload failed: Failed database insert after 3 attempts: ''
                  @ errorMessage error3)))
         \<and> processingStatus (snd (POST e ps)) (uuidv4 e) =
             Some \<lparr>entry_status = ''error'',
                   entry_message =
                     ''Failed database insert after 3 attempts: '' @ errorMessage error3,
                   entry_timestamp = dateNow e 2\<rparr>"
  unfolding POST_unrolled [OF assms(1-4)]
  using assms(5-8)
  by (simp add: finish_def giveUp_def runBeforeInsert_def)

theorem every_attempt_fails_witness:
  "length (filter isInsert
     (events (snd (POST (sampleEnv failAlways) Map.empty)))) = 3
   \<and> fst (POST (sampleEnv failAlways) Map.empty) =
       Some (jsonResponse 500 (ErrorBody
         ''Upload failed: Failed database insert after 3 attempts: connection timed out''))
   \<and> processingStatus (snd (POST (sampleEnv failAlways) Map.empty)) ''item-1'' =
       Some \<lparr>entry_status = ''error'',
             entry_message = ''Failed database insert after 3 attempts: connection timed out'',
             entry_timestamp = 1002\<rparr>"
  using every_attempt_fails
    [of "sampleEnv failAlways" sampleUser sampleForm sampleFile sampleUrl
        sampleVector "[]" timeout timeout timeout Map.empty]
  by (simp add: sample_stages sample_rowOf sample_outcome sample_fields failAlways_def
        timeout_def)

text \<open>
  C7, as stated: the delays between successive attempts follow the sequence 1 s, 2 s,
  4 s, and the delay before the first retry is 1 second. It fails for the request whose
  first insert fails and whose second succeeds: the handler waits 2000 ms before the
  retry, and no timer of 1000 ms is set.
\<close>

theorem first_retry_delay_counterexample:
  "filter insertOrSleep
     (events (snd (POST (sampleEnv failOnce) Map.empty))) =
     [InsertItem sampleRow, Sleep 2000, InsertItem sampleRow]
   \<and> Sleep 1000 \<notin>
       set (events (snd (POST (sampleEnv failOnce)
         Map.empty)))"
  unfolding POST_unrolled [OF sample_stages]
  by (simp add: sample_outcome sample_rowOf failOnce_def finish_def succeed_def
        runBeforeInsert_def preludeEvents_def formEvents_def retryEvents_def attemptEvents_def
        failureEvents_def insertOrSleep_def)

text \<open>
  C7, amended. For a request that reaches the loop, the delay after the failed attempt
  number \<open>k\<close> (counted from 1) is \<open>2 ^ k\<close> seconds: 2 s between the first and the second
  attempt, 4 s between the second and the third, and no delay after the third. The calls
  and timers of the request are, in order:
\<close>

theorem backoff_delays:
  assumes "authenticated e user" and "validated e form f" and "uploaded e f url"
    and "embedded e f v others"
  shows "filter insertOrSleep (events (snd (POST e ps))) =
     (case insertItemWithEmbedding e 0 (rowOf e user form url v) of
        None \<Rightarrow> [InsertItem (rowOf e user form url v)]
      | Some error1 \<Rightarrow>
          (case insertItemWithEmbedding e 1 (rowOf e user form url v) of
             None \<Rightarrow>
               [InsertItem (rowOf e user form url v), Sleep (2 ^ 1 * 1000),
                InsertItem (rowOf e user form url v)]
           | Some error2 \<Rightarrow>
               [InsertItem (rowOf e user form url v), Sleep (2 ^ 1 * 1000),
                InsertItem (rowOf e user form url v), Sleep (2 ^ 2 * 1000),
                InsertItem (rowOf e user form url v)]))"
  unfolding POST_unrolled [OF assms]
  by (simp add: finish_def succeed_def giveUp_def runBeforeInsert_def insertOrSleep_def
      split: option.splits)

theorem backoff_delays_witness:
  "filter insertOrSleep (events (snd (POST (sampleEnv rejectAlways) Map.empty))) =
     [InsertItem sampleRow, Sleep 2000, InsertItem sampleRow, Sleep 4000, InsertItem sampleRow]"
  using backoff_delays
    [of "sampleEnv rejectAlways" sampleUser sampleForm sampleFile sampleUrl
        sampleVector "[]" Map.empty]
  by (simp add: sample_stages sample_rowOf sample_outcome rejectAlways_def)

text \<open>
  C8. A failure of the insert that carries the code 42501 gets a console line of its own
  and is otherwise handled as any failure. For a request that reaches the loop:
  \<^item> the number of calls of \<open>insertItemWithEmbedding\<close> depends only on which calls fail,
    and is 3 when the first two fail, whatever they throw;
  \<^item> the response, the status map and the events other than console lines are those of
    the same request in which no thrown value has a code;
  \<^item> the console has one line for a violated policy for each failed attempt with the
    code, and no other.
\<close>

theorem rls_rejection_consumes_attempt:
  assumes "authenticated e user" and "validated e form f" and "uploaded e f url"
    and "embedded e f v others"
  shows "length (filter isInsert (events (snd (POST e ps)))) =
           (case insertItemWithEmbedding e 0 (rowOf e user form url v) of
              None \<Rightarrow> 1
            | Some error1 \<Rightarrow>
                (case insertItemWithEmbedding e 1 (rowOf e user form url v) of
                   None \<Rightarrow> 2 | Some error2 \<Rightarrow> 3))
         \<and> fst (POST e ps) = fst (POST (withoutCodes e) ps)
         \<and> processingStatus (snd (POST e ps)) = processingStatus (snd (POST (withoutCodes e) ps))
         \<and> effects (events (snd (POST e ps))) = effects (events (snd (POST (withoutCodes e) ps)))
         \<and> length (filter isRlsLine (events (snd (POST e ps)))) =
             length (filter isRlsFailure (events (snd (POST e ps))))
         \<and> filter isRlsLine (events (snd (POST (withoutCodes e) ps))) = []"
proof -
  let ?e = "withoutCodes e"
  have stages: "authenticated ?e user" "validated ?e form f" "uploaded ?e f url"
    "embedded ?e f v others"
    using assms
    by (simp_all add: authenticated_def validated_def uploaded_def stored_def embedded_def
          fileNameOf_def withoutCodes_def)
  have same: "rowOf ?e user form url v = rowOf e user form url v"
    "localsOf ?e user form url v = localsOf e user form url v"
    "runBeforeInsert ?e ps user f = runBeforeInsert e ps user f"
    by (simp_all add: rowOf_def localsOf_def runBeforeInsert_def preludeEvents_def
          fileNameOf_def processingEntry_def withoutCodes_def)
  have outcome: "insertItemWithEmbedding ?e k row =
      map_option withoutCode (insertItemWithEmbedding e k row)" for k row
    by (simp add: withoutCodes_def)
  have fields: "uuidv4 ?e = uuidv4 e" "dateNow ?e = dateNow e"
    by (simp_all add: withoutCodes_def)
  have message: "errorMessage (withoutCode x) = errorMessage x"
    "statusMessage (withoutCode x) = statusMessage x"
    "\<not> isRlsError (withoutCode x)" for x
    by (cases x; simp)+
  show ?thesis
    unfolding POST_unrolled [OF assms] POST_unrolled [OF stages] same outcome
    by (simp add: finish_def succeed_def giveUp_def runBeforeInsert_def preludeEvents_def
          formEvents_def retryEvents_def attemptEvents_def failureEvents_def effects_def
          fields message
        split: option.splits)
qed

theorem rls_rejection_consumes_attempt_witness:
  "length (filter isInsert (events (snd (POST (sampleEnv rejectAlways) Map.empty)))) = 3
   \<and> length (filter isRlsLine (events (snd (POST (sampleEnv rejectAlways) Map.empty)))) = 3
   \<and> fst (POST (sampleEnv rejectAlways) Map.empty) =
       fst (POST (withoutCodes (sampleEnv rejectAlways)) Map.empty)
   \<and> effects (events (snd (POST (sampleEnv rejectAlways) Map.empty))) =
       effects (events (snd (POST (withoutCodes (sampleEnv rejectAlways)) Map.empty)))"
proof -
  have "length (filter isRlsFailure
          (events (snd (POST (sampleEnv rejectAlways) Map.empty)))) = 3"
    unfolding POST_unrolled [OF sample_stages]
    by (simp add: sample_outcome rejectAlways_def rlsRejection_def finish_def giveUp_def
          runBeforeInsert_def preludeEvents_def formEvents_def retryEvents_def
          attemptEvents_def failureEvents_def)
  then show ?thesis
    using rls_rejection_consumes_attempt
      [of "sampleEnv rejectAlways" sampleUser sampleForm sampleFile sampleUrl sampleVector
          "[]" Map.empty]
    by (simp add: sample_stages sample_outcome rejectAlways_def)
qed

section \<open>The claims about the checks before the upload\<close>

lemma truthy_iff: "truthy x \<longleftrightarrow> x \<noteq> None \<and> x \<noteq> Some (Text [])"
  by (induction x rule: truthy.induct) simp_all

text \<open>
  C10. When the retrieval of the session itself fails with an error, the handler answers
  with status 500 and a JSON error body, not 401, before any side effect: the status map
  is unchanged, and the events are the call and two console lines, so nothing is uploaded,
  embedded or inserted.
\<close>

theorem session_error_is_500:
  assumes "reply_error (getSession e) = Some m"
  shows "fst (POST e ps) =
           Some (jsonResponse 500 (ErrorBody (''Server error retrieving session: '' @ m)))
         \<and> contentType (jsonResponse 500 (ErrorBody (''Server error retrieving session: '' @ m)))
             = ''application/json''
         \<and> processingStatus (snd (POST e ps)) = ps
         \<and> events (snd (POST e ps)) =
             [Console UploadApiCalled, GetSession, Console (SessionRetrievalError m)]
         \<and> filter sideEffect (events (snd (POST e ps))) = []"
  using assms
  by (simp add: POST_def tryBlock_def Let_def jsonResponse_def sideEffect_def)

theorem session_error_is_500_witness:
  "fst (POST sessionErrorEnv Map.empty) =
     Some \<lparr>status = 500, contentType = ''application/json'',
           body = ErrorBody ''Server error retrieving session: fetch failed''\<rparr>
   \<and> processingStatus (snd (POST sessionErrorEnv Map.empty)) = Map.empty
   \<and> filter sideEffect (events (snd (POST sessionErrorEnv Map.empty))) = []"
  using session_error_is_500 [of sessionErrorEnv "''fetch failed''" Map.empty]
  by (simp add: sessionErrorEnv_def sampleEnv_def jsonResponse_def sideEffect_def)

text \<open>
  C5. When the session is retrieved without error and there is none, the handler answers
  with status 401 before any side effect: the status map is unchanged, and the events are
  the call and two console lines, so nothing is uploaded, embedded or inserted.
\<close>

theorem no_session_is_401:
  assumes "reply_error (getSession e) = None" and "reply_session (getSession e) = None"
  shows "fst (POST e ps) = Some (jsonResponse 401 (ErrorBody ''No active session''))
         \<and> processingStatus (snd (POST e ps)) = ps
         \<and> events (snd (POST e ps)) =
             [Console UploadApiCalled, GetSession, Console AuthCheckFailed]
         \<and> filter sideEffect (events (snd (POST e ps))) = []"
  using assms
  by (simp add: POST_def tryBlock_def Let_def sideEffect_def)

theorem no_session_is_401_witness:
  "fst (POST noSessionEnv Map.empty) =
     Some \<lparr>status = 401, contentType = ''application/json'',
           body = ErrorBody ''No active session''\<rparr>
   \<and> processingStatus (snd (POST noSessionEnv Map.empty)) = Map.empty
   \<and> filter sideEffect (events (snd (POST noSessionEnv Map.empty))) = []"
  using no_session_is_401 [of noSessionEnv Map.empty]
  by (simp add: noSessionEnv_def sampleEnv_def jsonResponse_def sideEffect_def)

text \<open>
  C4, as stated: an authenticated request in which the title, the location or the image
  is missing or empty is answered with status 400 before any side effect. It fails for an
  image that is a file without content: the check of line 117 reads the truth value of
  the \<open>File\<close> object, which is true whatever its size. The request is accepted, its
  status entry is written, and the empty file is uploaded and its row inserted.
\<close>

theorem empty_image_counterexample:
  "file_content emptyFile = []
   \<and> authenticated emptyImageEnv sampleUser
   \<and> formData emptyImageEnv = Inr emptyImageForm
   \<and> emptyImageForm ''image'' = Some (FileValue emptyFile)
   \<and> fst (POST emptyImageEnv Map.empty) =
       Some \<lparr>status = 200, contentType = ''application/json'',
             body = SuccessBody True ''item-1'' sampleUrl 3\<rparr>
   \<and> filter isStorageUpload (events (snd (POST emptyImageEnv Map.empty))) =
       [StorageUpload ''item-1-empty.png'' []]
   \<and> length (filter isInsert (events (snd (POST emptyImageEnv Map.empty)))) = 1
   \<and> processingStatus (snd (POST emptyImageEnv Map.empty)) ''item-1'' \<noteq> None"
proof -
  have stages: "authenticated emptyImageEnv sampleUser"
    "validated emptyImageEnv emptyImageForm emptyFile"
    "uploaded emptyImageEnv emptyFile sampleUrl"
    "embedded emptyImageEnv emptyFile sampleVector []"
    by (simp_all add: authenticated_def validated_def uploaded_def stored_def embedded_def
          emptyImageEnv_def sampleEnv_def emptyImageForm_def sampleUrl_def sampleVector_def)
  show ?thesis
    unfolding POST_unrolled [OF stages]
    using stages(1)
    by (simp add: emptyImageEnv_def sampleEnv_def succeedAlways_def emptyImageForm_def
          emptyFile_def finish_def succeed_def runBeforeInsert_def preludeEvents_def
          formEvents_def attemptEvents_def fileNameOf_def replaceWhiteSpace_def
          isWhiteSpace_def jsonResponse_def)
qed

text \<open>
  C4, amended. For an authenticated request whose form has no title or the empty string
  as title, no location or the empty string as location, or no image or the empty string
  as image, the handler answers with status 400 before any side effect: the status map is
  unchanged and the events end with the reading of the form, so nothing is uploaded,
  embedded or inserted. An image that is a file passes the check, whatever its content.
\<close>

theorem missing_field_is_400:
  assumes "authenticated e user" and "formData e = Inr form"
    and "form ''title'' = None \<or> form ''title'' = Some (Text [])
         \<or> form ''location'' = None \<or> form ''location'' = Some (Text [])
         \<or> form ''image'' = None \<or> form ''image'' = Some (Text [])"
  shows "fst (POST e ps) = Some (jsonResponse 400 (ErrorBody ''Missing required fields''))
         \<and> processingStatus (snd (POST e ps)) = ps
         \<and> events (snd (POST e ps)) = formEvents user
         \<and> filter sideEffect (events (snd (POST e ps))) = []"
proof -
  have "\<not> truthy (form ''title'') \<or> \<not> truthy (form ''location'') \<or> \<not> truthy (form ''image'')"
    using assms(3) by (auto simp: truthy_iff)
  then show ?thesis
    using assms(1,2)
    by (simp add: POST_def tryBlock_def Let_def authenticated_def formEvents_def emailOf_def
          sideEffect_def)
qed

theorem missing_field_is_400_witness:
  "fst (POST noTitleEnv Map.empty) =
     Some \<lparr>status = 400, contentType = ''application/json'',
           body = ErrorBody ''Missing required fields''\<rparr>
   \<and> processingStatus (snd (POST noTitleEnv Map.empty)) = Map.empty
   \<and> filter sideEffect (events (snd (POST noTitleEnv Map.empty))) = []"
  using missing_field_is_400 [of noTitleEnv sampleUser noTitleForm Map.empty]
  by (simp add: noTitleEnv_def sampleEnv_def noTitleForm_def authenticated_def
        jsonResponse_def formEvents_def sideEffect_def)

section \<open>The claims about what is persisted and returned\<close>

subsection \<open>Every way through the handler\<close>

text \<open>A request either passes every stage before the loop, or is answered without any
  call of \<open>insertItemWithEmbedding\<close> and with a status other than 200.\<close>

lemma POST_cases:
  obtains (loop) user form f url v others
    where "authenticated e user" and "validated e form f" and "uploaded e f url"
      and "embedded e f v others"
  | (early) "\<exists>resp. fst (POST e ps) = Some resp \<and> status resp \<noteq> 200"
      and "filter isInsert (events (snd (POST e ps))) = []"
proof (cases "reply_error (getSession e)")
  case (Some m)
  then show ?thesis
    by (intro early) (simp_all add: POST_def tryBlock_def Let_def jsonResponse_def)
next
  case noError: None
  show ?thesis
  proof (cases "reply_session (getSession e)")
    case None
    with noError show ?thesis
      by (intro early) (simp_all add: POST_def tryBlock_def Let_def jsonResponse_def)
  next
    case session: (Some user)
    show ?thesis
    proof (cases "formData e")
      case (Inl error)
      with noError session show ?thesis
        by (intro early)
           (simp_all add: POST_def tryBlock_def Let_def jsonResponse_def catchBlock_def)
    next
      case parsed: (Inr form)
      note start = noError session parsed
      show ?thesis
      proof (cases "truthy (form ''title'') \<and> truthy (form ''location'')
                    \<and> truthy (form ''image'')")
        case False
        with start show ?thesis
          by (intro early) (auto simp: POST_def tryBlock_def Let_def jsonResponse_def)
      next
        case fields: True
        then obtain x where x: "form ''image'' = Some x"
          by (cases "form ''image''") auto
        show ?thesis
        proof (cases x)
          case (Text t)
          with start fields x show ?thesis
            by (intro early)
               (simp_all add: POST_def tryBlock_def processItem_def Let_def jsonResponse_def
                  catchBlock_def)
        next
          case isFile: (FileValue f)
          note start = start fields x isFile
          show ?thesis
          proof (cases "storageUpload e (fileNameOf e f) (file_content f)")
            case (Some m)
            with start show ?thesis
              by (intro early)
                 (simp_all add: POST_def tryBlock_def processItem_def Let_def
                    jsonResponse_def catchBlock_def fileNameOf_def)
          next
            case upload: None
            show ?thesis
            proof (cases "case getPublicUrl e (fileNameOf e f) of None \<Rightarrow> [] | Some u \<Rightarrow> u")
              case Nil
              with start upload show ?thesis
                by (intro early)
                   (simp_all add: POST_def tryBlock_def processItem_def Let_def
                      jsonResponse_def catchBlock_def fileNameOf_def)
            next
              case (Cons c cs)
              then have url: "getPublicUrl e (fileNameOf e f) = Some (c # cs)"
                by (simp split: option.splits)
              show ?thesis
              proof (cases "imageEmbeds e (file_content f) (imageTypeOf f)")
                case (Inl error)
                with start upload url show ?thesis
                  by (intro early)
                     (simp_all add: POST_def tryBlock_def processItem_def Let_def
                        jsonResponse_def catchBlock_def fileNameOf_def imageTypeOf_def)
              next
                case vectors: (Inr vs)
                show ?thesis
                proof (cases vs)
                  case Nil
                  with start upload url vectors show ?thesis
                    by (intro early)
                       (simp_all add: POST_def tryBlock_def processItem_def Let_def
                          jsonResponse_def catchBlock_def fileNameOf_def imageTypeOf_def)
                next
                  case (Cons v others)
                  show ?thesis
                  proof (cases "length v = VECTOR_DIMENSION e")
                    case False
                    with start upload url vectors Cons show ?thesis
                      by (intro early)
                         (simp_all add: POST_def tryBlock_def processItem_def Let_def
                            jsonResponse_def catchBlock_def fileNameOf_def imageTypeOf_def)
                  next
                    case True
                    show ?thesis
                    proof (rule loop)
                      show "authenticated e user"
                        using start by (simp add: authenticated_def)
                      show "validated e form f"
                        using start by (simp add: validated_def)
                      show "uploaded e f (c # cs)"
                        using upload url by (simp add: uploaded_def stored_def)
                      show "embedded e f v others"
                        using vectors Cons True by (simp add: embedded_def)
                    qed
                  qed
                qed
              qed
            qed
          qed
        qed
      qed
    qed
  qed
qed

subsection \<open>The rows the loop hands over\<close>

lemma databaseInsert_exit:
  assumes "\<not> attempt \<le> maxRetries"
  shows "snd (databaseInsert e l attempt lastError r) = r"
  using assms
  by (subst databaseInsert.simps) (simp split: option.splits)

text \<open>Whatever the attempt the loop starts at and whatever the calls do, every row it
  hands to \<open>insertItemWithEmbedding\<close> is \<open>itemToInsert\<close> of its local variables.\<close>

lemma databaseInsert_rows:
  assumes "InsertItem row \<in> set (events (snd (databaseInsert e l attempt lastError r)))"
  shows "InsertItem row \<in> set (events r) \<or> row = itemToInsert l"
  using assms
proof (induction n \<equiv> "Suc maxRetries - attempt" arbitrary: attempt lastError r)
  case 0
  then have "\<not> attempt \<le> maxRetries"
    by simp
  with "0.prems" show ?case
    by (simp add: databaseInsert_exit)
next
  case (Suc n)
  then have bound: "attempt \<le> maxRetries"
    by simp
  show ?case
  proof (cases "insertItemWithEmbedding e (insertCalls r) (itemToInsert l)")
    case None
    with bound Suc.prems show ?thesis
      by (auto simp: databaseInsert_succeed succeed_def attemptEvents_def)
  next
    case (Some error)
    show ?thesis
    proof (cases "attempt = maxRetries")
      case True
      with Some Suc.prems show ?thesis
        by (auto simp: databaseInsert_giveUp giveUp_def attemptEvents_def failureEvents_def)
    next
      case False
      with bound have less: "attempt < maxRetries"
        by simp
      let ?r = "emits (retryEvents l attempt error) r"
      have "InsertItem row \<in> set (events (snd (databaseInsert e l (Suc attempt) (Some error) ?r)))"
        using Suc.prems databaseInsert_retry [OF less Some] by simp
      moreover have "n = Suc maxRetries - Suc attempt"
        using Suc.hyps(2) by simp
      ultimately have "InsertItem row \<in> set (events ?r) \<or> row = itemToInsert l"
        by (rule Suc.hyps(1) [rotated])
      then show ?thesis
        by (auto simp: retryEvents_def attemptEvents_def failureEvents_def)
    qed
  qed
qed

lemma POST_rows:
  assumes "authenticated e user" and "validated e form f" and "uploaded e f url"
    and "embedded e f v others"
    and "InsertItem row \<in> set (events (snd (POST e ps)))"
  shows "row = rowOf e user form url v"
proof -
  let ?loop = "databaseInsert e (localsOf e user form url v) 1 None (runBeforeInsert e ps user f)"
  have "InsertItem row \<in> set (events (snd ?loop))"
    using assms(5) unfolding POST_insert_stage [OF assms(1-4)]
    by (cases ?loop; cases "fst ?loop") (auto simp: finish_def)
  then have "InsertItem row \<in> set (events (runBeforeInsert e ps user f))
             \<or> row = itemToInsert (localsOf e user form url v)"
    by (rule databaseInsert_rows)
  then show ?thesis
    by (auto simp: runBeforeInsert_def preludeEvents_def formEvents_def)
qed

text \<open>
  C3. Every row the handler hands to \<open>insertItemWithEmbedding\<close> has an embedding whose
  length is \<open>VECTOR_DIMENSION\<close>, and that embedding is the first vector the pipeline
  computed for the image of the request, unchanged. When the computed vector has another
  length, the request ends with status 500 and the message of the dimension check, and
  \<open>insertItemWithEmbedding\<close> is never called.
\<close>

theorem embedding_dimension:
  "(\<forall>row. InsertItem row \<in> set (events (snd (POST e ps))) \<longrightarrow>
      length (item_embedding row) = VECTOR_DIMENSION e
      \<and> (\<exists>g others. imageEmbeds e (file_content g) (imageTypeOf g) =
            Inr (item_embedding row # others)))
   \<and> (authenticated e user \<and> validated e form f \<and> uploaded e f url
       \<and> imageEmbeds e (file_content f) (imageTypeOf f) = Inr (v # others)
       \<and> length v \<noteq> VECTOR_DIMENSION e \<longrightarrow>
       fst (POST e ps) =
         Some (jsonResponse 500 (ErrorBody
           (''Upload failed: Generated embedding dimension ('' @ decimal (length v)
              @ '') does not match expected dimension ('' @ decimal (VECTOR_DIMENSION e)
              @ '')'')))
       \<and> filter isInsert (events (snd (POST e ps))) = [])"
proof (intro conjI allI impI)
  fix row
  assume row: "InsertItem row \<in> set (events (snd (POST e ps)))"
  have "length (item_embedding row) = VECTOR_DIMENSION e
        \<and> (\<exists>g others. imageEmbeds e (file_content g) (imageTypeOf g) =
              Inr (item_embedding row # others))"
  proof (cases rule: POST_cases [where e = e and ps = ps])
    case (loop user' form' f' url' v' others')
    then have "row = rowOf e user' form' url' v'"
      using row by (rule POST_rows)
    then have "item_embedding row = v'"
      by (simp add: rowOf_def itemToInsert_def)
    with loop(4) show ?thesis
      by (auto simp: embedded_def)
  next
    case early
    then have "InsertItem row \<notin> set (events (snd (POST e ps)))"
      by (auto simp: filter_empty_conv)
    with row show ?thesis
      by simp
  qed
  then show "length (item_embedding row) = VECTOR_DIMENSION e"
    and "\<exists>g others. imageEmbeds e (file_content g) (imageTypeOf g) =
           Inr (item_embedding row # others)"
    by simp_all
next
  assume mismatch: "authenticated e user \<and> validated e form f \<and> uploaded e f url
       \<and> imageEmbeds e (file_content f) (imageTypeOf f) = Inr (v # others)
       \<and> length v \<noteq> VECTOR_DIMENSION e"
  then show "fst (POST e ps) =
         Some (jsonResponse 500 (ErrorBody
           (''Upload failed: Generated embedding dimension ('' @ decimal (length v)
              @ '') does not match expected dimension ('' @ decimal (VECTOR_DIMENSION e)
              @ '')'')))"
    and "filter isInsert (events (snd (POST e ps))) = []"
    by (simp_all add: POST_def tryBlock_def processItem_def Let_def catchBlock_def
          authenticated_def validated_def uploaded_def stored_def fileNameOf_def
          imageTypeOf_def)
qed

theorem embedding_dimension_witness:
  "InsertItem sampleRow \<in> set (events (snd (POST (sampleEnv failOnce) Map.empty)))
   \<and> length (item_embedding sampleRow) = 2
   \<and> fst (POST shortVectorEnv Map.empty) =
       Some (jsonResponse 500 (ErrorBody
         ''Upload failed: Generated embedding dimension (1) does not match expected dimension (2)''))
   \<and> filter isInsert (events (snd (POST shortVectorEnv Map.empty))) = []"
proof -
  have inserted: "InsertItem sampleRow \<in> set (events (snd (POST (sampleEnv failOnce) Map.empty)))"
    unfolding POST_unrolled [OF sample_stages]
    by (simp add: sample_outcome sample_rowOf failOnce_def finish_def succeed_def
          attemptEvents_def)
  have mismatch: "authenticated shortVectorEnv sampleUser
      \<and> validated shortVectorEnv sampleForm sampleFile
      \<and> uploaded shortVectorEnv sampleFile sampleUrl
      \<and> imageEmbeds shortVectorEnv (file_content sampleFile) (imageTypeOf sampleFile) =
          Inr ([1 / 2] # [])
      \<and> length [1 / 2 :: real] \<noteq> VECTOR_DIMENSION shortVectorEnv"
    by (simp add: authenticated_def validated_def uploaded_def stored_def shortVectorEnv_def
          sampleEnv_def sampleForm_def sampleUrl_def)
  have "length (item_embedding sampleRow) = VECTOR_DIMENSION (sampleEnv failOnce)"
    using embedding_dimension [where e = "sampleEnv failOnce" and ps = Map.empty] inserted
    by blast
  moreover have "fst (POST shortVectorEnv Map.empty) =
       Some (jsonResponse 500 (ErrorBody
         (''Upload failed: Generated embedding dimension ('' @ decimal (length [1 / 2 :: real])
            @ '') does not match expected dimension (''
            @ decimal (VECTOR_DIMENSION shortVectorEnv) @ '')'')))
     \<and> filter isInsert (events (snd (POST shortVectorEnv Map.empty))) = []"
    using embedding_dimension
      [where e = shortVectorEnv and ps = Map.empty and user = sampleUser
         and form = sampleForm and f = sampleFile and url = sampleUrl and v = "[1 / 2]"
         and others = "[]"]
      mismatch
    by blast
  ultimately show ?thesis
    using inserted
    by (simp add: sample_fields shortVectorEnv_def sampleEnv_def decimal.simps)
qed

text \<open>Every request gets a response: the end of the function after the loop is never
  reached.\<close>

lemma POST_responds: "fst (POST e ps) \<noteq> None"
proof (cases rule: POST_cases [where e = e and ps = ps])
  case (loop user form f url v others)
  show ?thesis
    unfolding POST_unrolled [OF loop]
    by (simp add: finish_def succeed_def giveUp_def split: option.splits)
next
  case early
  then show ?thesis
    by auto
qed

text \<open>
  C6. A response of status 200 has the body \<open>{success, itemId, imageUrl, processingTime}\<close>
  with \<open>success\<close> true, the identifier of the request and an \<open>imageUrl\<close> that is not
  empty. When the upload succeeded and the object store gives no public URL, or an empty
  one, the request ends with status 500 and nothing is embedded or inserted.
\<close>

theorem success_has_image_url:
  "(\<forall>resp. fst (POST e ps) = Some resp \<and> status resp = 200 \<longrightarrow>
      (\<exists>url t. url \<noteq> [] \<and> resp = jsonResponse 200 (SuccessBody True (uuidv4 e) url t)))
   \<and> (authenticated e user \<and> validated e form f \<and> stored e f
       \<and> (getPublicUrl e (fileNameOf e f) = None \<or> getPublicUrl e (fileNameOf e f) = Some [])
       \<longrightarrow>
       fst (POST e ps) =
         Some (jsonResponse 500 (ErrorBody
           ''Upload failed: Failed to get public URL for uploaded image.''))
       \<and> filter isEmbedding (events (snd (POST e ps))) = []
       \<and> filter isInsert (events (snd (POST e ps))) = [])"
proof (intro conjI allI impI)
  fix resp
  assume ok: "fst (POST e ps) = Some resp \<and> status resp = 200"
  show "\<exists>url t. url \<noteq> [] \<and> resp = jsonResponse 200 (SuccessBody True (uuidv4 e) url t)"
  proof (cases rule: POST_cases [where e = e and ps = ps])
    case (loop user' form' f' url' v' others')
    have "url' \<noteq> []"
      using loop(3) by (simp add: uploaded_def)
    moreover have "resp =
        jsonResponse 200 (SuccessBody True (uuidv4 e) url' (dateNow e 3 - dateNow e 0))"
      using ok unfolding POST_unrolled [OF loop]
      by (auto simp: finish_def succeed_def giveUp_def jsonResponse_def split: option.splits)
    ultimately show ?thesis
      by blast
  next
    case early
    with ok show ?thesis
      by auto
  qed
next
  assume "authenticated e user \<and> validated e form f \<and> stored e f
       \<and> (getPublicUrl e (fileNameOf e f) = None \<or> getPublicUrl e (fileNameOf e f) = Some [])"
  then show "fst (POST e ps) =
         Some (jsonResponse 500 (ErrorBody
           ''Upload failed: Failed to get public URL for uploaded image.''))"
    and "filter isEmbedding (events (snd (POST e ps))) = []"
    and "filter isInsert (events (snd (POST e ps))) = []"
    by (auto simp: POST_def tryBlock_def processItem_def Let_def catchBlock_def
          authenticated_def validated_def stored_def fileNameOf_def)
qed

theorem success_has_image_url_witness:
  "fst (POST (sampleEnv succeedAlways) Map.empty) =
     Some (jsonResponse 200 (SuccessBody True ''item-1'' sampleUrl 3))
   \<and> sampleUrl \<noteq> []
   \<and> fst (POST noUrlEnv Map.empty) =
       Some (jsonResponse 500 (ErrorBody
         ''Upload failed: Failed to get public URL for uploaded image.''))
   \<and> filter isInsert (events (snd (POST noUrlEnv Map.empty))) = []"
proof -
  have computed: "fst (POST (sampleEnv succeedAlways) Map.empty) =
      Some (jsonResponse 200 (SuccessBody True ''item-1'' sampleUrl 3))"
    unfolding POST_unrolled [OF sample_stages]
    by (simp add: sample_outcome sample_fields succeedAlways_def finish_def succeed_def)
  then have "\<exists>url t. url \<noteq> [] \<and>
      jsonResponse 200 (SuccessBody True ''item-1'' sampleUrl 3) =
      jsonResponse 200 (SuccessBody True (uuidv4 (sampleEnv succeedAlways)) url t)"
    using success_has_image_url [where e = "sampleEnv succeedAlways" and ps = Map.empty]
    by (simp add: jsonResponse_def)
  then have "sampleUrl \<noteq> []"
    by (auto simp: jsonResponse_def)
  moreover have "authenticated noUrlEnv sampleUser \<and> validated noUrlEnv sampleForm sampleFile
      \<and> stored noUrlEnv sampleFile
      \<and> (getPublicUrl noUrlEnv (fileNameOf noUrlEnv sampleFile) = None
          \<or> getPublicUrl noUrlEnv (fileNameOf noUrlEnv sampleFile) = Some [])"
    by (simp add: authenticated_def validated_def stored_def noUrlEnv_def sampleEnv_def
          sampleForm_def)
  then have "fst (POST noUrlEnv Map.empty) =
       Some (jsonResponse 500 (ErrorBody
         ''Upload failed: Failed to get public URL for uploaded image.''))
     \<and> filter isInsert (events (snd (POST noUrlEnv Map.empty))) = []"
    using success_has_image_url
      [where e = noUrlEnv and ps = Map.empty and user = sampleUser and form = sampleForm
         and f = sampleFile]
    by blast
  ultimately show ?thesis
    using computed by simp
qed

section \<open>The claim about the text search\<close>

lemma trim_empty_iff: "trim q = [] \<longleftrightarrow> (\<forall>c \<in> set q. isWhiteSpace c)"
proof
  assume "trim q = []"
  then have "\<forall>c \<in> set (dropWhile isWhiteSpace q). isWhiteSpace c"
    by (simp add: trim_def dropWhile_eq_Nil_conv)
  then have "dropWhile isWhiteSpace q = []"
    using hd_dropWhile [of isWhiteSpace q] by (cases "dropWhile isWhiteSpace q") auto
  then show "\<forall>c \<in> set q. isWhiteSpace c"
    by (simp add: dropWhile_eq_Nil_conv)
next
  assume "\<forall>c \<in> set q. isWhiteSpace c"
  then have blank: "dropWhile isWhiteSpace q = []"
    by (simp add: dropWhile_eq_Nil_conv)
  show "trim q = []"
    unfolding trim_def blank by simp
qed

text \<open>
  C9. When the query is empty or has only white space, \<open>handleTextSearch\<close> sets the list
  of items to the empty list and returns: nothing else of the page changes, and no
  request is sent, so neither the search endpoint nor the embedding pipeline behind it
  is invoked.
\<close>

theorem blank_query_short_circuits:
  assumes "\<forall>c \<in> set (searchQuery s). isWhiteSpace c"
  shows "handleTextSearch b s = (s\<lparr>items := []\<rparr>, [])
         \<and> items (fst (handleTextSearch b s)) = []
         \<and> filter isFetch (snd (handleTextSearch b s)) = []"
proof -
  have "trim (searchQuery s) = []"
    using assms by (simp add: trim_empty_iff)
  then show ?thesis
    by (simp add: handleTextSearch_def)
qed

theorem blank_query_short_circuits_witness:
  "searchQuery blankQueryPage = [0x20, 0x09, 0x3000]
   \<and> items blankQueryPage = [sampleItem]
   \<and> items (fst (handleTextSearch sampleBrowser blankQueryPage)) = []
   \<and> snd (handleTextSearch sampleBrowser blankQueryPage) = []"
proof -
  have blank: "\<forall>c \<in> set (searchQuery blankQueryPage). isWhiteSpace c"
    by (simp add: blankQueryPage_def isWhiteSpace_def)
  then show ?thesis
    using blank_query_short_circuits [OF blank, of sampleBrowser]
    by (simp add: blankQueryPage_def)
qed

end
